theory Spec2Isabelle
  imports Complex_Main "HOL-Library.Finite_Map"
begin

section \<open>Python values, objects and the store\<close>

text \<open>
  The module \<^verbatim>\<open>data_processor.py\<close> is dynamically typed, so its functions are embedded over
  one universe of Python values. Immutable values (\<^verbatim>\<open>None\<close>, \<^verbatim>\<open>bool\<close>, \<^verbatim>\<open>int\<close>, \<^verbatim>\<open>float\<close>,
  \<^verbatim>\<open>str\<close>, \<^verbatim>\<open>tuple\<close>) are plain values. The mutable containers (\<^verbatim>\<open>list\<close>, \<^verbatim>\<open>dict\<close>) are objects
  with an identity: a value refers to them by address and the store maps each address to the
  object's contents. Every dict display \<^verbatim>\<open>{...}\<close> of the source allocates a new object, so the
  functions take the store and return it updated.

  A \<^verbatim>\<open>str\<close> is a list of 8-bit characters read as the code points U+0000 to U+00FF; dict keys
  are strings. Python's \<^verbatim>\<open>int\<close> is unbounded and is HOL's \<open>int\<close>. The type \<open>'f\<close> stands for
  Python's \<^verbatim>\<open>float\<close>: IEEE arithmetic is not defined here, the float primitives that the
  module reaches are parameters (\<open>float_ops\<close>), and every theorem holds for each choice
  of them.
\<close>

type_synonym addr = nat

datatype 'f pyval =
    PNone
  | PBool bool
  | PInt int
  | PFloat 'f
  | PStr string
  | PTuple "'f pyval list"
  | PRef addr

datatype 'f pyobj =
    OList "'f pyval list"
  | ODict "(string, 'f pyval) fmap"

record 'f heap =
  objs :: "addr \<Rightarrow> 'f pyobj"
  next_addr :: addr

datatype error = TypeError | AttributeError | KeyError | ZeroDivisionError | OverflowError

text \<open>
  The float primitives: \<open>int_truediv a b\<close> is \<^verbatim>\<open>a / b\<close> on two ints with \<open>b \<noteq> 0\<close> (it
  raises \<^verbatim>\<open>OverflowError\<close> when the quotient is too large for a float), \<open>float_truediv x b\<close>
  is \<^verbatim>\<open>x / b\<close> for a float \<open>x\<close> and an int \<open>b \<noteq> 0\<close>, \<open>float_sum acc xs\<close> is how \<^verbatim>\<open>sum\<close>
  goes on from the int accumulator \<open>acc\<close> over the remaining items \<open>xs\<close> once the first of
  them is a float, and \<open>float_is_zero x\<close> is \<^verbatim>\<open>x == 0.0\<close>.
\<close>

record 'f float_ops =
  int_truediv :: "int \<Rightarrow> int \<Rightarrow> error + 'f"
  float_truediv :: "'f \<Rightarrow> int \<Rightarrow> error + 'f"
  float_sum :: "int \<Rightarrow> 'f pyval list \<Rightarrow> error + 'f"
  float_is_zero :: "'f \<Rightarrow> bool"

definition alloc :: "'f heap \<Rightarrow> 'f pyobj \<Rightarrow> addr \<times> 'f heap" where
  "alloc h ob =
     (next_addr h, h\<lparr>objs := (objs h)(next_addr h := ob), next_addr := Suc (next_addr h)\<rparr>)"

text \<open>A dict display \<^verbatim>\<open>{k1: v1, ..., kn: vn}\<close>: the entries are stored from left to right
  in a new dict object.\<close>

definition dict_of :: "(string \<times> 'f pyval) list \<Rightarrow> (string, 'f pyval) fmap" where
  "dict_of kvs = foldl (\<lambda>m (k, v). fmupd k v m) fmempty kvs"

definition new_dict :: "'f heap \<Rightarrow> (string \<times> 'f pyval) list \<Rightarrow> 'f pyval \<times> 'f heap" where
  "new_dict h kvs = (let (a, h') = alloc h (ODict (dict_of kvs)) in (PRef a, h'))"

subsection \<open>The built-in operations the module uses\<close>

text \<open>Truth value testing, as \<^verbatim>\<open>or\<close> and the conditional expression do it.\<close>

fun py_truthy :: "'f float_ops \<Rightarrow> 'f heap \<Rightarrow> 'f pyval \<Rightarrow> bool" where
  "py_truthy ops h PNone = False"
| "py_truthy ops h (PBool b) = b"
| "py_truthy ops h (PInt i) = (i \<noteq> 0)"
| "py_truthy ops h (PFloat x) = (\<not> float_is_zero ops x)"
| "py_truthy ops h (PStr s) = (s \<noteq> [])"
| "py_truthy ops h (PTuple xs) = (xs \<noteq> [])"
| "py_truthy ops h (PRef a) =
     (case objs h a of OList xs \<Rightarrow> xs \<noteq> [] | ODict m \<Rightarrow> m \<noteq> fmempty)"

text \<open>\<^verbatim>\<open>len(v)\<close>: defined on strings, tuples, lists and dicts, a \<^verbatim>\<open>TypeError\<close> elsewhere.\<close>

fun py_len :: "'f heap \<Rightarrow> 'f pyval \<Rightarrow> error + nat" where
  "py_len h (PStr s) = Inr (length s)"
| "py_len h (PTuple xs) = Inr (length xs)"
| "py_len h (PRef a) =
     (case objs h a of OList xs \<Rightarrow> Inr (length xs) | ODict m \<Rightarrow> Inr (fcard (fmdom m)))"
| "py_len h PNone = Inl TypeError"
| "py_len h (PBool b) = Inl TypeError"
| "py_len h (PInt i) = Inl TypeError"
| "py_len h (PFloat x) = Inl TypeError"

text \<open>The method call \<^verbatim>\<open>v.get(k, d)\<close>: only a dict has the method.\<close>

fun py_get :: "'f heap \<Rightarrow> 'f pyval \<Rightarrow> string \<Rightarrow> 'f pyval \<Rightarrow> error + 'f pyval" where
  "py_get h (PRef a) k d =
     (case objs h a of
        ODict m \<Rightarrow> Inr (case fmlookup m k of None \<Rightarrow> d | Some v \<Rightarrow> v)
      | OList xs \<Rightarrow> Inl AttributeError)"
| "py_get h PNone k d = Inl AttributeError"
| "py_get h (PBool b) k d = Inl AttributeError"
| "py_get h (PInt i) k d = Inl AttributeError"
| "py_get h (PFloat x) k d = Inl AttributeError"
| "py_get h (PStr s) k d = Inl AttributeError"
| "py_get h (PTuple xs) k d = Inl AttributeError"

text \<open>The subscription \<^verbatim>\<open>v[k]\<close> with a string key, which reads a field of a returned dict.\<close>

fun py_getitem :: "'f heap \<Rightarrow> 'f pyval \<Rightarrow> string \<Rightarrow> error + 'f pyval" where
  "py_getitem h (PRef a) k =
     (case objs h a of
        ODict m \<Rightarrow> (case fmlookup m k of None \<Rightarrow> Inl KeyError | Some v \<Rightarrow> Inr v)
      | OList xs \<Rightarrow> Inl TypeError)"
| "py_getitem h PNone k = Inl TypeError"
| "py_getitem h (PBool b) k = Inl TypeError"
| "py_getitem h (PInt i) k = Inl TypeError"
| "py_getitem h (PFloat x) k = Inl TypeError"
| "py_getitem h (PStr s) k = Inl TypeError"
| "py_getitem h (PTuple xs) k = Inl TypeError"

text \<open>\<^verbatim>\<open>str.lower\<close> on the code points below U+0100: the capital letters A to Z, and
  U+00C0 to U+00DE without the multiplication sign U+00D7, move up by 32.\<close>

definition lower_char :: "char \<Rightarrow> char" where
  "lower_char c =
     (let n = (of_char c :: nat)
      in if (65 \<le> n \<and> n \<le> 90) \<or> (192 \<le> n \<and> n \<le> 214) \<or> (216 \<le> n \<and> n \<le> 222)
         then char_of (n + 32) else c)"

definition str_lower :: "string \<Rightarrow> string" where
  "str_lower s = map lower_char s"

text \<open>The method call \<^verbatim>\<open>v.lower()\<close>: of the values here only a \<^verbatim>\<open>str\<close> has the method.
  Python values of other types with such a method (\<^verbatim>\<open>bytes\<close>, \<^verbatim>\<open>bytearray\<close>, objects of user
  classes) are not in this universe, and nothing below says that they raise.\<close>

fun py_lower :: "'f pyval \<Rightarrow> error + 'f pyval" where
  "py_lower (PStr s) = Inr (PStr (str_lower s))"
| "py_lower PNone = Inl AttributeError"
| "py_lower (PBool b) = Inl AttributeError"
| "py_lower (PInt i) = Inl AttributeError"
| "py_lower (PFloat x) = Inl AttributeError"
| "py_lower (PTuple xs) = Inl AttributeError"
| "py_lower (PRef a) = Inl AttributeError"

text \<open>
  \<^verbatim>\<open>sum(iterable)\<close> starts from the int \<^verbatim>\<open>0\<close> and adds the items from left to right. While
  the items are ints (a \<^verbatim>\<open>bool\<close> counts as 0 or 1) the accumulator is an exact int; from
  the first float on the float primitive takes over; any other item makes \<^verbatim>\<open>+\<close> raise
  \<^verbatim>\<open>TypeError\<close>.
\<close>

fun sum_items :: "'f float_ops \<Rightarrow> int \<Rightarrow> 'f pyval list \<Rightarrow> error + 'f pyval" where
  "sum_items ops acc [] = Inr (PInt acc)"
| "sum_items ops acc (PInt i # xs) = sum_items ops (acc + i) xs"
| "sum_items ops acc (PBool b # xs) = sum_items ops (acc + (if b then 1 else 0)) xs"
| "sum_items ops acc (PFloat x # xs) = map_sum id PFloat (float_sum ops acc (PFloat x # xs))"
| "sum_items ops acc (PNone # xs) = Inl TypeError"
| "sum_items ops acc (PStr s # xs) = Inl TypeError"
| "sum_items ops acc (PTuple ys # xs) = Inl TypeError"
| "sum_items ops acc (PRef a # xs) = Inl TypeError"

text \<open>Iterating a string yields one-character strings and iterating a dict yields its
  keys, which are strings: both sum to \<^verbatim>\<open>0\<close> when empty and raise otherwise.\<close>

fun py_sum :: "'f float_ops \<Rightarrow> 'f heap \<Rightarrow> 'f pyval \<Rightarrow> error + 'f pyval" where
  "py_sum ops h (PTuple xs) = sum_items ops 0 xs"
| "py_sum ops h (PRef a) =
     (case objs h a of
        OList xs \<Rightarrow> sum_items ops 0 xs
      | ODict m \<Rightarrow> if m = fmempty then Inr (PInt 0) else Inl TypeError)"
| "py_sum ops h (PStr s) = (if s = [] then Inr (PInt 0) else Inl TypeError)"
| "py_sum ops h PNone = Inl TypeError"
| "py_sum ops h (PBool b) = Inl TypeError"
| "py_sum ops h (PInt i) = Inl TypeError"
| "py_sum ops h (PFloat x) = Inl TypeError"

text \<open>True division \<^verbatim>\<open>v / n\<close> by an int \<open>n\<close>.\<close>

fun py_truediv :: "'f float_ops \<Rightarrow> 'f pyval \<Rightarrow> int \<Rightarrow> error + 'f pyval" where
  "py_truediv ops (PInt a) n =
     (if n = 0 then Inl ZeroDivisionError else map_sum id PFloat (int_truediv ops a n))"
| "py_truediv ops (PBool b) n =
     (if n = 0 then Inl ZeroDivisionError
      else map_sum id PFloat (int_truediv ops (if b then 1 else 0) n))"
| "py_truediv ops (PFloat x) n =
     (if n = 0 then Inl ZeroDivisionError else map_sum id PFloat (float_truediv ops x n))"
| "py_truediv ops PNone n = Inl TypeError"
| "py_truediv ops (PStr s) n = Inl TypeError"
| "py_truediv ops (PTuple xs) n = Inl TypeError"
| "py_truediv ops (PRef a) n = Inl TypeError"

section \<open>The module\<close>

text \<open>
  \<^verbatim>\<open>
  def process_user_data(user_id, data):
      return {
          'id': user_id,
          'normalized': data.get('name', '').lower()
      }
  \<close>
\<close>

definition process_user_data ::
  "'f heap \<Rightarrow> 'f pyval \<Rightarrow> 'f pyval \<Rightarrow> error + ('f pyval \<times> 'f heap)" where
  "process_user_data h user_id data =
     (case py_get h data ''name'' (PStr '''') of
        Inl e \<Rightarrow> Inl e
      | Inr name \<Rightarrow>
          (case py_lower name of
             Inl e \<Rightarrow> Inl e
           | Inr normalized \<Rightarrow>
               Inr (new_dict h [(''id'', user_id), (''normalized'', normalized)])))"

text \<open>
  \<^verbatim>\<open>
  def calculate_metrics(dataset):
      total = sum(dataset)
      avg = total / len(dataset) if dataset else 0
      return {'total': total, 'average': avg}
  \<close>
\<close>

definition calculate_metrics ::
  "'f float_ops \<Rightarrow> 'f heap \<Rightarrow> 'f pyval \<Rightarrow> error + ('f pyval \<times> 'f heap)" where
  "calculate_metrics ops h dataset =
     (case py_sum ops h dataset of
        Inl e \<Rightarrow> Inl e
      | Inr total' \<Rightarrow>
          (case (if py_truthy ops h dataset
                 then (case py_len h dataset of
                         Inl e \<Rightarrow> Inl e
                       | Inr n \<Rightarrow> py_truediv ops total' (int n))
                 else Inr (PInt 0)) of
             Inl e \<Rightarrow> Inl e
           | Inr avg \<Rightarrow> Inr (new_dict h [(''total'', total'), (''average'', avg)])))"

text \<open>
  \<^verbatim>\<open>
  class DataAnalyzer:
      def __init__(self, config=None):
          self.config = config or {}

      def analyze(self, data):
          return {'analyzed': True, 'data_count': len(data)}
  \<close>
  An instance is a record of its one attribute. The constructor's argument is optional:
  \<open>None\<close> is the call \<^verbatim>\<open>DataAnalyzer()\<close>, which binds the default \<^verbatim>\<open>None\<close>. The private
  method \<^verbatim>\<open>_internal_helper\<close> is called by nothing in the module and is left out.
\<close>

record 'f DataAnalyzer =
  config :: "'f pyval"

definition DataAnalyzer_init ::
  "'f float_ops \<Rightarrow> 'f heap \<Rightarrow> 'f pyval option \<Rightarrow> 'f DataAnalyzer \<times> 'f heap" where
  "DataAnalyzer_init ops h arg =
     (let cfg = (case arg of None \<Rightarrow> PNone | Some c \<Rightarrow> c)
      in if py_truthy ops h cfg then (\<lparr>config = cfg\<rparr>, h)
         else (let (d, h') = new_dict h [] in (\<lparr>config = d\<rparr>, h')))"

definition analyze ::
  "'f DataAnalyzer \<Rightarrow> 'f heap \<Rightarrow> 'f pyval \<Rightarrow> error + ('f pyval \<times> 'f heap)" where
  "analyze self h data =
     (case py_len h data of
        Inl e \<Rightarrow> Inl e
      | Inr n \<Rightarrow> Inr (new_dict h [(''analyzed'', PBool True), (''data_count'', PInt (int n))]))"

section \<open>Reading results\<close>

text \<open>The expression \<^verbatim>\<open>f(...)[k]\<close>: the field \<open>k\<close> of the dict that a call returns, read
  in the store the call leaves; an exception of the call propagates.\<close>

definition field_of :: "string \<Rightarrow> error + ('f pyval \<times> 'f heap) \<Rightarrow> error + 'f pyval" where
  "field_of k out = (case out of Inl e \<Rightarrow> Inl e | Inr (v, h') \<Rightarrow> py_getitem h' v k)"

text \<open>The contents of the object that a call returns, which is what \<^verbatim>\<open>==\<close> compares on
  two dicts of immutable values.\<close>

definition contents_of :: "error + ('f pyval \<times> 'f heap) \<Rightarrow> error + 'f pyobj option" where
  "contents_of out =
     (case out of
        Inl e \<Rightarrow> Inl e
      | Inr (v, h') \<Rightarrow> Inr (case v of PRef a \<Rightarrow> Some (objs h' a) | _ \<Rightarrow> None))"

text \<open>A sequence is a tuple or a list; \<open>seq_items h d\<close> are its items in the store \<open>h\<close>.\<close>

fun seq_items :: "'f heap \<Rightarrow> 'f pyval \<Rightarrow> 'f pyval list option" where
  "seq_items h (PTuple xs) = Some xs"
| "seq_items h (PRef a) = (case objs h a of OList xs \<Rightarrow> Some xs | ODict m \<Rightarrow> None)"
| "seq_items h PNone = None"
| "seq_items h (PBool b) = None"
| "seq_items h (PInt i) = None"
| "seq_items h (PFloat x) = None"
| "seq_items h (PStr s) = None"

text \<open>A value that exists in the store \<open>h\<close>: a reference points below the next free
  address.\<close>

fun allocated :: "'f heap \<Rightarrow> 'f pyval \<Rightarrow> bool" where
  "allocated h (PRef a) = (a < next_addr h)"
| "allocated h PNone = True"
| "allocated h (PBool b) = True"
| "allocated h (PInt i) = True"
| "allocated h (PFloat x) = True"
| "allocated h (PStr s) = True"
| "allocated h (PTuple xs) = True"

subsection \<open>An instance of the float primitives, for the examples\<close>

text \<open>Exact arithmetic: a float is a rational number and no operation rounds or
  overflows. The examples below are evaluated with it.\<close>

fun rat_sum :: "rat \<Rightarrow> rat pyval list \<Rightarrow> error + rat" where
  "rat_sum acc [] = Inr acc"
| "rat_sum acc (PInt i # xs) = rat_sum (acc + of_int i) xs"
| "rat_sum acc (PBool b # xs) = rat_sum (acc + (if b then 1 else 0)) xs"
| "rat_sum acc (PFloat x # xs) = rat_sum (acc + x) xs"
| "rat_sum acc (PNone # xs) = Inl TypeError"
| "rat_sum acc (PStr s # xs) = Inl TypeError"
| "rat_sum acc (PTuple ys # xs) = Inl TypeError"
| "rat_sum acc (PRef a # xs) = Inl TypeError"

definition rat_ops :: "rat float_ops" where
  "rat_ops =
     \<lparr>int_truediv = (\<lambda>a b. Inr (of_int a / of_int b)),
      float_truediv = (\<lambda>x b. Inr (x / of_int b)),
      float_sum = (\<lambda>acc xs. rat_sum (of_int acc) xs),
      float_is_zero = (\<lambda>x. x = 0)\<rparr>"

text \<open>A store with five objects: the records \<^verbatim>\<open>{'name': 'Alice'}\<close> and \<^verbatim>\<open>{'name': 5}\<close>,
  the lists \<^verbatim>\<open>[1, 2, 3, 4]\<close> and \<^verbatim>\<open>[]\<close>, and the empty dict.\<close>

definition store0 :: "rat heap" where
  "store0 =
     \<lparr>objs = (\<lambda>a. if a = 0 then ODict (dict_of [(''name'', PStr ''Alice'')])
                  else if a = 1 then ODict (dict_of [(''name'', PInt 5)])
                  else if a = 2 then OList [PInt 1, PInt 2, PInt 3, PInt 4]
                  else if a = 3 then OList []
                  else ODict fmempty),
      next_addr = 5\<rparr>"

section \<open>Auxiliary facts\<close>

lemma sum_items_ints: "sum_items ops acc (map PInt is) = Inr (PInt (acc + sum_list is))"
  by (induction "is" arbitrary: acc) (simp_all add: add.assoc)

lemma dict_of_Nil: "dict_of [] = fmempty"
  by (simp add: dict_of_def)

lemma dict_of_single: "dict_of [(k1, v1)] = fmupd k1 v1 fmempty"
  by (simp add: dict_of_def)

lemma dict_of_pair: "dict_of [(k1, v1), (k2, v2)] = fmupd k2 v2 (fmupd k1 v1 fmempty)"
  by (simp add: dict_of_def)

lemma field_of_new_dict:
  "field_of k (Inr (new_dict h kvs)) =
     (case fmlookup (dict_of kvs) k of None \<Rightarrow> Inl KeyError | Some v \<Rightarrow> Inr v)"
  by (simp add: field_of_def new_dict_def alloc_def)

lemma field_of_Inl: "field_of k (Inl e) = Inl e"
  by (simp add: field_of_def)

lemma str_lower_Alice: "str_lower ''Alice'' = ''alice''"
  by code_simp

text \<open>On a sequence, \<^verbatim>\<open>sum\<close>, the truth test and \<^verbatim>\<open>len\<close> all read the same items.\<close>

lemma calculate_metrics_seq:
  assumes "seq_items h d = Some xs"
  shows "calculate_metrics ops h d =
     (case sum_items ops 0 xs of
        Inl e \<Rightarrow> Inl e
      | Inr t \<Rightarrow>
          (case (if xs \<noteq> [] then py_truediv ops t (int (length xs)) else Inr (PInt 0)) of
             Inl e \<Rightarrow> Inl e
           | Inr avg \<Rightarrow> Inr (new_dict h [(''total'', t), (''average'', avg)])))"
  using assms
  by (cases d) (auto simp: calculate_metrics_def split: pyobj.splits sum.splits)

lemma process_user_data_dict:
  assumes "objs h a = ODict r"
  shows "process_user_data h i (PRef a) =
     (case py_lower (case fmlookup r ''name'' of None \<Rightarrow> PStr '''' | Some v \<Rightarrow> v) of
        Inl e \<Rightarrow> Inl e
      | Inr s \<Rightarrow> Inr (new_dict h [(''id'', i), (''normalized'', s)]))"
  using assms by (simp add: process_user_data_def)

text \<open>Whatever the arguments, a call of \<open>process_user_data\<close> that returns has allocated
  one dict, with the two keys \<^verbatim>\<open>id\<close> and \<^verbatim>\<open>normalized\<close>, at the next free address.\<close>

lemma process_user_data_returns:
  assumes "process_user_data h i data = Inr (v, h')"
  shows "\<exists>s. v = PRef (next_addr h)
           \<and> objs h' (next_addr h) = ODict (dict_of [(''id'', i), (''normalized'', PStr s)])"
proof -
  from assms obtain name n where n: "py_lower name = Inr n"
    and out: "new_dict h [(''id'', i), (''normalized'', n)] = (v, h')"
    by (auto simp: process_user_data_def split: sum.splits)
  from n obtain s where "n = PStr s" by (cases name) auto
  with out show ?thesis by (auto simp: new_dict_def alloc_def)
qed

section \<open>calculate_metrics\<close>

text \<open>
  Claim C1. For a sequence \<open>d\<close> (a list or a tuple) with items \<open>xs\<close>, the field
  \<^verbatim>\<open>average\<close> of \<open>calculate_metrics d\<close> is the int \<^verbatim>\<open>0\<close> when \<open>xs\<close> is empty: the call
  returns, no exception is raised and the value is an int, not a float. When \<open>xs\<close> is not
  empty it is the outcome of \<^verbatim>\<open>sum(d) / len(d)\<close>, the true division of the sum of the items
  by their number; for ints \<open>is\<close> that is the division primitive applied to the
  mathematical sum \<open>sum_list is\<close> and the length, which is not zero.
\<close>

theorem calculate_metrics_average:
  assumes "seq_items h d = Some xs"
  shows "field_of ''average'' (calculate_metrics ops h d) =
           (if xs = [] then Inr (PInt 0)
            else (case sum_items ops 0 xs of
                    Inl e \<Rightarrow> Inl e
                  | Inr t \<Rightarrow> py_truediv ops t (int (length xs))))
         \<and> (xs = map PInt is \<and> is \<noteq> [] \<longrightarrow>
              field_of ''average'' (calculate_metrics ops h d) =
                map_sum id PFloat (int_truediv ops (sum_list is) (int (length is))))"
proof -
  note cm = calculate_metrics_seq [OF assms, of ops]
  have gen: "field_of ''average'' (calculate_metrics ops h d) =
           (if xs = [] then Inr (PInt 0)
            else (case sum_items ops 0 xs of
                    Inl e \<Rightarrow> Inl e
                  | Inr t \<Rightarrow> py_truediv ops t (int (length xs))))"
    unfolding cm
    by (auto simp: field_of_new_dict field_of_Inl dict_of_pair split: sum.splits)
  have ints: "field_of ''average'' (calculate_metrics ops h d) =
                map_sum id PFloat (int_truediv ops (sum_list is) (int (length is)))"
    if "xs = map PInt is" "is \<noteq> []"
    unfolding gen using that by (simp add: sum_items_ints)
  from gen ints show ?thesis by blast
qed

text \<open>The spec's scenarios 3 and 4: \<^verbatim>\<open>[1, 2, 3, 4]\<close> has the average 5/2 and \<^verbatim>\<open>[]\<close> the
  average \<^verbatim>\<open>0\<close>.\<close>

theorem calculate_metrics_average_witness:
  "seq_items store0 (PRef 2) = Some (map PInt [1, 2, 3, 4])
   \<and> field_of ''average'' (calculate_metrics rat_ops store0 (PRef 2)) = Inr (PFloat (5 / 2))
   \<and> seq_items store0 (PRef 3) = Some []
   \<and> field_of ''average'' (calculate_metrics rat_ops store0 (PRef 3)) = Inr (PInt 0)"
proof -
  have a: "seq_items store0 (PRef 2) = Some (map PInt [1, 2, 3, 4])"
    by (simp add: store0_def)
  have b: "seq_items store0 (PRef 3) = Some []"
    by (simp add: store0_def)
  show ?thesis
    using a b calculate_metrics_average [OF a, of rat_ops "[1, 2, 3, 4]"]
      calculate_metrics_average [OF b, of rat_ops "[]"]
    by (simp add: rat_ops_def)
qed



section \<open>process_user_data\<close>

text \<open>
  Claim C2, as stated, fails: \<open>process_user_data\<close> raises on a record whose \<^verbatim>\<open>name\<close> is
  not a string. On the record \<^verbatim>\<open>{'name': 5}\<close> the lookup returns the int \<^verbatim>\<open>5\<close>, which has
  no method \<^verbatim>\<open>lower\<close>, and the call raises \<^verbatim>\<open>AttributeError\<close>.
\<close>

theorem process_user_data_raises_counterexample:
  "process_user_data store0 (PStr ''u1'') (PRef 1) = Inl AttributeError"
  by (simp add: process_user_data_def store0_def dict_of_single)

text \<open>
  Claim C2, amended. For every identifier \<open>i\<close> and every record \<open>r\<close>, the call
  \<open>process_user_data i r\<close> returns without raising when \<open>r\<close> has no key \<^verbatim>\<open>name\<close> or maps it
  to a string; when \<open>r\<close> maps \<^verbatim>\<open>name\<close> to \<^verbatim>\<open>None\<close>, a bool, an int, a float, a tuple, a
  list or a dict, none of which has a method \<^verbatim>\<open>lower\<close>, the call raises
  \<^verbatim>\<open>AttributeError\<close>.
\<close>

theorem process_user_data_returns_or_raises:
  assumes "objs h a = ODict r"
  shows "(fmlookup r ''name'' = None \<or> (\<exists>s. fmlookup r ''name'' = Some (PStr s)) \<longrightarrow>
            (\<exists>out. process_user_data h i (PRef a) = Inr out))
         \<and> ((\<exists>v. fmlookup r ''name'' = Some v
                \<and> (v = PNone \<or> (\<exists>b. v = PBool b) \<or> (\<exists>n. v = PInt n) \<or> (\<exists>x. v = PFloat x)
                    \<or> (\<exists>xs. v = PTuple xs) \<or> (\<exists>b. v = PRef b))) \<longrightarrow>
              process_user_data h i (PRef a) = Inl AttributeError)"
proof -
  have ret: "\<exists>out. process_user_data h i (PRef a) = Inr out"
    if "fmlookup r ''name'' = None \<or> (\<exists>s. fmlookup r ''name'' = Some (PStr s))"
    unfolding process_user_data_dict [OF assms] using that by auto
  have raise: "process_user_data h i (PRef a) = Inl AttributeError"
    if "\<exists>v. fmlookup r ''name'' = Some v
          \<and> (v = PNone \<or> (\<exists>b. v = PBool b) \<or> (\<exists>n. v = PInt n) \<or> (\<exists>x. v = PFloat x)
              \<or> (\<exists>xs. v = PTuple xs) \<or> (\<exists>b. v = PRef b))"
    unfolding process_user_data_dict [OF assms] using that by auto
  from ret raise show ?thesis by blast
qed

theorem process_user_data_returns_or_raises_witness:
  "objs store0 0 = ODict (dict_of [(''name'', PStr ''Alice'')])
   \<and> fmlookup (dict_of [(''name'', PStr ''Alice'') :: string \<times> rat pyval]) ''name''
       = Some (PStr ''Alice'')
   \<and> (\<exists>out. process_user_data store0 (PInt 7) (PRef 0) = Inr out)
   \<and> objs store0 1 = ODict (dict_of [(''name'', PInt 5)])
   \<and> fmlookup (dict_of [(''name'', PInt 5) :: string \<times> rat pyval]) ''name'' = Some (PInt 5)
   \<and> process_user_data store0 (PInt 7) (PRef 1) = Inl AttributeError"
proof -
  have a: "objs store0 0 = ODict (dict_of [(''name'', PStr ''Alice'')])"
    by (simp add: store0_def)
  have b: "objs store0 1 = ODict (dict_of [(''name'', PInt 5)])"
    by (simp add: store0_def)
  show ?thesis
    using a b process_user_data_returns_or_raises [OF a, of "PInt 7"]
      process_user_data_returns_or_raises [OF b, of "PInt 7"]
    by (simp add: dict_of_single)
qed

text \<open>
  Claim C3. For every identifier \<open>i\<close> and every record \<open>r\<close>: when \<open>r\<close> maps \<^verbatim>\<open>name\<close> to a
  string \<open>s\<close>, the call returns and its field \<^verbatim>\<open>normalized\<close> is \<open>s\<close> in lower case; when
  \<open>r\<close> has no key \<^verbatim>\<open>name\<close>, the call returns and the field is the empty string.
\<close>

theorem process_user_data_normalized:
  assumes "objs h a = ODict r"
  shows "(\<forall>s. fmlookup r ''name'' = Some (PStr s) \<longrightarrow>
            field_of ''normalized'' (process_user_data h i (PRef a)) = Inr (PStr (str_lower s)))
         \<and> (fmlookup r ''name'' = None \<longrightarrow>
            field_of ''normalized'' (process_user_data h i (PRef a)) = Inr (PStr ''''))"
  unfolding process_user_data_dict [OF assms]
  by (auto simp: field_of_new_dict dict_of_pair str_lower_def)

text \<open>The spec's scenarios 1 and 2.\<close>

theorem process_user_data_normalized_witness:
  "objs store0 0 = ODict (dict_of [(''name'', PStr ''Alice'')])
   \<and> field_of ''normalized'' (process_user_data store0 (PStr ''u1'') (PRef 0)) = Inr (PStr ''alice'')
   \<and> objs store0 4 = ODict fmempty
   \<and> field_of ''normalized'' (process_user_data store0 (PStr ''u2'') (PRef 4)) = Inr (PStr '''')"
proof -
  have a: "objs store0 0 = ODict (dict_of [(''name'', PStr ''Alice'')])"
    by (simp add: store0_def)
  have b: "objs store0 4 = ODict fmempty"
    by (simp add: store0_def)
  show ?thesis
    using a b process_user_data_normalized [OF a, of "PStr ''u1''"]
      process_user_data_normalized [OF b, of "PStr ''u2''"]
    by (simp add: dict_of_single str_lower_Alice)
qed

text \<open>
  Claim C6. Whatever the identifier \<open>i\<close> and the record, the dict that
  \<open>process_user_data\<close> returns holds \<open>i\<close> itself under the key \<^verbatim>\<open>id\<close>; and on a record
  that has no key \<^verbatim>\<open>name\<close> or a string under it, the call does return.
\<close>

theorem process_user_data_id:
  "(process_user_data h i data = Inr (v, h') \<longrightarrow> py_getitem h' v ''id'' = Inr i)
   \<and> (objs h a = ODict r
        \<and> (fmlookup r ''name'' = None \<or> (\<exists>s. fmlookup r ''name'' = Some (PStr s))) \<longrightarrow>
        field_of ''id'' (process_user_data h i (PRef a)) = Inr i)"
proof -
  have ret: "py_getitem h' v ''id'' = Inr i" if "process_user_data h i data = Inr (v, h')"
    using process_user_data_returns [OF that] by (auto simp: dict_of_pair)
  have ok: "field_of ''id'' (process_user_data h i (PRef a)) = Inr i"
    if "objs h a = ODict r"
      and "fmlookup r ''name'' = None \<or> (\<exists>s. fmlookup r ''name'' = Some (PStr s))"
    unfolding process_user_data_dict [OF that(1)] using that(2)
    by (auto simp: field_of_new_dict dict_of_pair)
  from ret ok show ?thesis by blast
qed

theorem process_user_data_id_witness:
  "objs store0 0 = ODict (dict_of [(''name'', PStr ''Alice'')])
   \<and> fmlookup (dict_of [(''name'', PStr ''Alice'') :: string \<times> rat pyval]) ''name''
       = Some (PStr ''Alice'')
   \<and> process_user_data store0 (PStr ''u1'') (PRef 0) =
       Inr (PRef 5, snd (new_dict store0 [(''id'', PStr ''u1''), (''normalized'', PStr ''alice'')]))
   \<and> py_getitem (snd (new_dict store0 [(''id'', PStr ''u1''), (''normalized'', PStr ''alice'')]))
        (PRef 5) ''id'' = Inr (PStr ''u1'')
   \<and> field_of ''id'' (process_user_data store0 (PStr ''u1'') (PRef 0)) = Inr (PStr ''u1'')"
proof -
  have a: "objs store0 0 = ODict (dict_of [(''name'', PStr ''Alice'')])"
    by (simp add: store0_def)
  have b: "fmlookup (dict_of [(''name'', PStr ''Alice'') :: string \<times> rat pyval]) ''name''
             = Some (PStr ''Alice'')"
    by (simp add: dict_of_single)
  have c: "process_user_data store0 (PStr ''u1'') (PRef 0) =
     Inr (PRef 5, snd (new_dict store0 [(''id'', PStr ''u1''), (''normalized'', PStr ''alice'')]))"
    by (simp add: process_user_data_def store0_def dict_of_single str_lower_Alice
        new_dict_def alloc_def)
  show ?thesis
    using a b c
      process_user_data_id [of store0 "PStr ''u1''" "PRef 0" "PRef 5"
        "snd (new_dict store0 [(''id'', PStr ''u1''), (''normalized'', PStr ''alice'')])"
        0 "dict_of [(''name'', PStr ''Alice'')]"]
    by simp
qed

text \<open>
  Claim C9. The dict that \<open>process_user_data\<close> returns has no key \<^verbatim>\<open>name\<close>, so applying
  \<open>process_user_data\<close>, with any identifier \<open>i2\<close>, to that dict returns a dict whose field
  \<^verbatim>\<open>normalized\<close> is the empty string; and on a record that has no key \<^verbatim>\<open>name\<close> or a
  string under it, the first call does return.
\<close>

theorem process_user_data_not_renormalizable:
  "(process_user_data h i data = Inr (v, h') \<longrightarrow>
      py_getitem h' v ''name'' = Inl KeyError
      \<and> field_of ''normalized'' (process_user_data h' i2 v) = Inr (PStr ''''))
   \<and> (objs h a = ODict r
        \<and> (fmlookup r ''name'' = None \<or> (\<exists>s. fmlookup r ''name'' = Some (PStr s))) \<longrightarrow>
        (\<exists>v h'. process_user_data h i (PRef a) = Inr (v, h')
           \<and> field_of ''normalized'' (process_user_data h' i2 v) = Inr (PStr '''')))"
proof -
  have ret: "py_getitem h' v ''name'' = Inl KeyError
      \<and> field_of ''normalized'' (process_user_data h' i2 v) = Inr (PStr '''')"
    if r: "process_user_data h i data = Inr (v, h')" for data v h'
  proof -
    from process_user_data_returns [OF r] obtain s where v: "v = PRef (next_addr h)"
      and o: "objs h' (next_addr h) = ODict (dict_of [(''id'', i), (''normalized'', PStr s)])"
      by blast
    have nm: "fmlookup (dict_of [(''id'', i), (''normalized'', PStr s)]) ''name'' = None"
      by (simp add: dict_of_pair)
    have "py_getitem h' v ''name'' = Inl KeyError"
      using v o nm by simp
    moreover have "field_of ''normalized'' (process_user_data h' i2 v) = Inr (PStr '''')"
      unfolding v process_user_data_dict [OF o] nm
      by (simp add: field_of_new_dict dict_of_pair str_lower_def)
    ultimately show ?thesis by blast
  qed
  have ok: "\<exists>v h'. process_user_data h i (PRef a) = Inr (v, h')
           \<and> field_of ''normalized'' (process_user_data h' i2 v) = Inr (PStr '''')"
    if d: "objs h a = ODict r"
      and n: "fmlookup r ''name'' = None \<or> (\<exists>s. fmlookup r ''name'' = Some (PStr s))"
  proof -
    have "\<exists>out. process_user_data h i (PRef a) = Inr out"
      unfolding process_user_data_dict [OF d] using n by auto
    then obtain out where "process_user_data h i (PRef a) = Inr out" ..
    then obtain v h' where "process_user_data h i (PRef a) = Inr (v, h')"
      by (cases out) simp
    with ret [OF this] show ?thesis by blast
  qed
  from ret ok show ?thesis by blast
qed

theorem process_user_data_not_renormalizable_witness:
  "objs store0 0 = ODict (dict_of [(''name'', PStr ''Alice'')])
   \<and> fmlookup (dict_of [(''name'', PStr ''Alice'') :: string \<times> rat pyval]) ''name''
       = Some (PStr ''Alice'')
   \<and> process_user_data store0 (PStr ''u1'') (PRef 0) =
       Inr (PRef 5, snd (new_dict store0 [(''id'', PStr ''u1''), (''normalized'', PStr ''alice'')]))
   \<and> field_of ''normalized''
        (process_user_data
           (snd (new_dict store0 [(''id'', PStr ''u1''), (''normalized'', PStr ''alice'')]))
           (PStr ''u2'') (PRef 5)) = Inr (PStr '''')"
proof -
  have a: "objs store0 0 = ODict (dict_of [(''name'', PStr ''Alice'')])"
    by (simp add: store0_def)
  have b: "fmlookup (dict_of [(''name'', PStr ''Alice'') :: string \<times> rat pyval]) ''name''
             = Some (PStr ''Alice'')"
    by (simp add: dict_of_single)
  have c: "process_user_data store0 (PStr ''u1'') (PRef 0) =
     Inr (PRef 5, snd (new_dict store0 [(''id'', PStr ''u1''), (''normalized'', PStr ''alice'')]))"
    by (simp add: process_user_data_def store0_def dict_of_single str_lower_Alice
        new_dict_def alloc_def)
  show ?thesis
    using a b c
      process_user_data_not_renormalizable [of store0 "PStr ''u1''" "PRef 0" "PRef 5"
        "snd (new_dict store0 [(''id'', PStr ''u1''), (''normalized'', PStr ''alice'')])"
        "PStr ''u2''" 0 "dict_of [(''name'', PStr ''Alice'')]"]
    by simp
qed

section \<open>DataAnalyzer\<close>

text \<open>The constructor in its two cases.\<close>

lemma DataAnalyzer_init_falsy:
  assumes "\<not> py_truthy ops h (case arg of None \<Rightarrow> PNone | Some c \<Rightarrow> c)"
  shows "DataAnalyzer_init ops h arg =
           (\<lparr>config = PRef (next_addr h)\<rparr>,
            h\<lparr>objs := (objs h)(next_addr h := ODict fmempty), next_addr := Suc (next_addr h)\<rparr>)"
  using assms by (simp add: DataAnalyzer_init_def new_dict_def alloc_def dict_of_Nil)

lemma DataAnalyzer_init_truthy:
  assumes "py_truthy ops h (case arg of None \<Rightarrow> PNone | Some c \<Rightarrow> c)"
  shows "DataAnalyzer_init ops h arg = (\<lparr>config = (case arg of None \<Rightarrow> PNone | Some c \<Rightarrow> c)\<rparr>, h)"
  using assms by (simp add: DataAnalyzer_init_def)

text \<open>Constructing an instance leaves the length of every value that existed before as
  it was.\<close>

lemma py_len_DataAnalyzer_init:
  assumes "allocated h d"
  shows "py_len (snd (DataAnalyzer_init ops h arg)) d = py_len h d"
  using assms
  by (cases d) (auto simp: DataAnalyzer_init_def new_dict_def alloc_def Let_def)

lemma contents_of_analyze:
  "contents_of (analyze self h d) =
     (case py_len h d of
        Inl e \<Rightarrow> Inl e
      | Inr n \<Rightarrow>
          Inr (Some (ODict (dict_of [(''analyzed'', PBool True), (''data_count'', PInt (int n))]))))"
  by (simp add: contents_of_def analyze_def new_dict_def alloc_def split: sum.splits)

text \<open>
  Claim C4. For every instance and every value \<open>c\<close> that has a length \<open>n\<close>, \<open>analyze c\<close>
  returns a dict whose field \<^verbatim>\<open>analyzed\<close> is \<^verbatim>\<open>True\<close> and whose field \<^verbatim>\<open>data_count\<close> is
  \<open>n\<close>; so it is for the instance that the constructor makes from any argument, when \<open>c\<close>
  exists before the construction. The length is the number of items of a list or a tuple,
  of characters of a string and of keys of a dict.
\<close>

theorem analyze_result:
  assumes "py_len h c = Inr n"
  shows "field_of ''analyzed'' (analyze self h c) = Inr (PBool True)
         \<and> field_of ''data_count'' (analyze self h c) = Inr (PInt (int n))
         \<and> (allocated h c \<longrightarrow>
              field_of ''analyzed''
                (analyze (fst (DataAnalyzer_init ops h arg)) (snd (DataAnalyzer_init ops h arg)) c)
                = Inr (PBool True)
              \<and> field_of ''data_count''
                (analyze (fst (DataAnalyzer_init ops h arg)) (snd (DataAnalyzer_init ops h arg)) c)
                = Inr (PInt (int n)))
         \<and> (\<forall>xs. seq_items h c = Some xs \<longrightarrow> n = length xs)
         \<and> (\<forall>s. c = PStr s \<longrightarrow> n = length s)
         \<and> (\<forall>a m. c = PRef a \<and> objs h a = ODict m \<longrightarrow> n = fcard (fmdom m))"
proof -
  have res: "field_of ''analyzed'' (analyze s h1 c) = Inr (PBool True)
      \<and> field_of ''data_count'' (analyze s h1 c) = Inr (PInt (int n))"
    if "py_len h1 c = Inr n" for s :: "'a DataAnalyzer" and h1
    using that by (simp add: analyze_def field_of_new_dict dict_of_pair)
  have built: "field_of ''analyzed''
                (analyze (fst (DataAnalyzer_init ops h arg)) (snd (DataAnalyzer_init ops h arg)) c)
                = Inr (PBool True)
              \<and> field_of ''data_count''
                (analyze (fst (DataAnalyzer_init ops h arg)) (snd (DataAnalyzer_init ops h arg)) c)
                = Inr (PInt (int n))"
    if "allocated h c"
    using res [of "snd (DataAnalyzer_init ops h arg)"] py_len_DataAnalyzer_init [OF that, of ops arg]
      assms
    by simp
  have seq: "n = length xs" if "seq_items h c = Some xs" for xs
    using assms that by (cases c) (auto split: pyobj.splits)
  have str: "n = length s" if "c = PStr s" for s
    using assms that by simp
  have dict: "n = fcard (fmdom m)" if "c = PRef a \<and> objs h a = ODict m" for a m
    using assms that by simp
  from res [OF assms, of self] built seq str dict show ?thesis by blast
qed

text \<open>An analyzer built with \<^verbatim>\<open>None\<close>, as in the spec's scenario 5, on the list
  \<^verbatim>\<open>[1, 2, 3, 4]\<close>.\<close>

theorem analyze_result_witness:
  "py_len store0 (PRef 2) = Inr 4 \<and> allocated store0 (PRef 2)
   \<and> field_of ''analyzed''
       (analyze (fst (DataAnalyzer_init rat_ops store0 (Some PNone)))
          (snd (DataAnalyzer_init rat_ops store0 (Some PNone))) (PRef 2)) = Inr (PBool True)
   \<and> field_of ''data_count''
       (analyze (fst (DataAnalyzer_init rat_ops store0 (Some PNone)))
          (snd (DataAnalyzer_init rat_ops store0 (Some PNone))) (PRef 2)) = Inr (PInt 4)"
proof -
  have a: "py_len store0 (PRef 2) = Inr 4"
    by (simp add: store0_def)
  have b: "allocated store0 (PRef 2)"
    by (simp add: store0_def)
  show ?thesis
    using a b analyze_result [OF a, of "\<lparr>config = PNone\<rparr>" rat_ops "Some PNone"] by simp
qed

text \<open>
  Claim C7. Let the store hold an empty dict at \<open>a\<close>. The constructor called with no
  argument and the constructor called with that dict return the same instance and the same
  store; the instance holds a reference to an empty dict, and \<open>analyze\<close> returns the same
  for every \<open>c\<close>. When the two instances are built one after the other in one store, they
  hold two different empty dicts and \<open>analyze\<close> again returns the same for both.
\<close>

theorem DataAnalyzer_default_config:
  assumes "objs h a = ODict fmempty"
  shows "DataAnalyzer_init ops h None = DataAnalyzer_init ops h (Some (PRef a))
         \<and> (\<forall>arg \<in> {None, Some (PRef a)}. \<forall>self h'. DataAnalyzer_init ops h arg = (self, h') \<longrightarrow>
               (\<exists>b. config self = PRef b \<and> objs h' b = ODict fmempty)
               \<and> analyze self h' c =
                   analyze (fst (DataAnalyzer_init ops h None)) (snd (DataAnalyzer_init ops h None)) c)
         \<and> (a < next_addr h \<longrightarrow>
              (\<forall>s1 h1 s2 h2.
                 DataAnalyzer_init ops h None = (s1, h1)
                 \<and> DataAnalyzer_init ops h1 (Some (PRef a)) = (s2, h2) \<longrightarrow>
                 analyze s1 h2 c = analyze s2 h2 c
                 \<and> (\<exists>b1 b2. config s1 = PRef b1 \<and> config s2 = PRef b2 \<and> b1 \<noteq> b2
                      \<and> objs h2 b1 = ODict fmempty \<and> objs h2 b2 = ODict fmempty)))"
proof -
  have f1: "\<not> py_truthy ops h' (case None of None \<Rightarrow> PNone | Some c \<Rightarrow> c)" for h' :: "'a heap"
    by simp
  have f2: "\<not> py_truthy ops h (case Some (PRef a) of None \<Rightarrow> PNone | Some c \<Rightarrow> c)"
    using assms by simp
  have eq: "DataAnalyzer_init ops h None = DataAnalyzer_init ops h (Some (PRef a))"
    unfolding DataAnalyzer_init_falsy [OF f1] DataAnalyzer_init_falsy [OF f2] ..
  have side: "(\<exists>b. config self = PRef b \<and> objs h' b = ODict fmempty)
      \<and> analyze self h' c =
          analyze (fst (DataAnalyzer_init ops h None)) (snd (DataAnalyzer_init ops h None)) c"
    if "arg \<in> {None, Some (PRef a)}" "DataAnalyzer_init ops h arg = (self, h')" for arg self h'
  proof -
    from that(1) eq have "DataAnalyzer_init ops h arg = DataAnalyzer_init ops h None"
      by auto
    with that(2) have i: "DataAnalyzer_init ops h None = (self, h')"
      by simp
    then show ?thesis
      unfolding DataAnalyzer_init_falsy [OF f1] by auto
  qed
  have seq: "analyze s1 h2 c = analyze s2 h2 c
         \<and> (\<exists>b1 b2. config s1 = PRef b1 \<and> config s2 = PRef b2 \<and> b1 \<noteq> b2
              \<and> objs h2 b1 = ODict fmempty \<and> objs h2 b2 = ODict fmempty)"
    if lt: "a < next_addr h" and i1: "DataAnalyzer_init ops h None = (s1, h1)"
      and i2: "DataAnalyzer_init ops h1 (Some (PRef a)) = (s2, h2)" for s1 h1 s2 h2
  proof -
    from i1 have s1: "s1 = \<lparr>config = PRef (next_addr h)\<rparr>"
      and h1: "h1 = h\<lparr>objs := (objs h)(next_addr h := ODict fmempty), next_addr := Suc (next_addr h)\<rparr>"
      unfolding DataAnalyzer_init_falsy [OF f1] by simp_all
    have "objs h1 a = ODict fmempty"
      using assms lt by (simp add: h1)
    then have f3: "\<not> py_truthy ops h1 (case Some (PRef a) of None \<Rightarrow> PNone | Some c \<Rightarrow> c)"
      by simp
    from i2 have s2: "s2 = \<lparr>config = PRef (next_addr h1)\<rparr>"
      and h2: "h2 = h1\<lparr>objs := (objs h1)(next_addr h1 := ODict fmempty), next_addr := Suc (next_addr h1)\<rparr>"
      unfolding DataAnalyzer_init_falsy [OF f3] by simp_all
    show ?thesis
      by (simp add: analyze_def s1 s2 h2 h1)
  qed
  from eq side seq show ?thesis by blast
qed

theorem DataAnalyzer_default_config_witness:
  "objs store0 4 = ODict fmempty \<and> 4 < next_addr store0
   \<and> DataAnalyzer_init rat_ops store0 None = DataAnalyzer_init rat_ops store0 (Some (PRef 4))
   \<and> DataAnalyzer_init rat_ops store0 None =
       (\<lparr>config = PRef 5\<rparr>, store0\<lparr>objs := (objs store0)(5 := ODict fmempty), next_addr := 6\<rparr>)
   \<and> objs (snd (DataAnalyzer_init rat_ops store0 None)) 5 = ODict fmempty"
proof -
  have a: "objs store0 4 = ODict fmempty" "4 < next_addr store0"
    by (simp_all add: store0_def)
  have b: "DataAnalyzer_init rat_ops store0 None =
      (\<lparr>config = PRef 5\<rparr>,
       store0\<lparr>objs := (objs store0)(5 := ODict fmempty), next_addr := 6\<rparr>)"
    by (simp add: DataAnalyzer_init_def new_dict_def alloc_def dict_of_Nil store0_def)
  show ?thesis
    using a b DataAnalyzer_default_config [OF a(1), of rat_ops "PRef 2"] by simp
qed

text \<open>
  Claim C8. \<open>analyze\<close> does not read the instance: two instances, whatever their
  configurations, return the same for the same \<open>d\<close> in the same store. For two instances
  that the constructor makes from two arguments, and a \<open>d\<close> that exists before, the two
  calls of \<open>analyze\<close> both raise the same exception or return dicts with the same
  contents.
\<close>

theorem analyze_ignores_config:
  "analyze s1 h d = analyze s2 h d
   \<and> (allocated h d \<longrightarrow>
        contents_of (analyze (fst (DataAnalyzer_init ops h arg1))
                       (snd (DataAnalyzer_init ops h arg1)) d) =
        contents_of (analyze (fst (DataAnalyzer_init ops h arg2))
                       (snd (DataAnalyzer_init ops h arg2)) d))"
proof
  show "analyze s1 h d = analyze s2 h d"
    by (simp add: analyze_def)
next
  show "allocated h d \<longrightarrow>
        contents_of (analyze (fst (DataAnalyzer_init ops h arg1))
                       (snd (DataAnalyzer_init ops h arg1)) d) =
        contents_of (analyze (fst (DataAnalyzer_init ops h arg2))
                       (snd (DataAnalyzer_init ops h arg2)) d)"
    by (simp add: contents_of_analyze py_len_DataAnalyzer_init)
qed

theorem analyze_ignores_config_witness:
  "allocated store0 (PRef 2)
   \<and> analyze \<lparr>config = PRef 0\<rparr> store0 (PRef 2) = analyze \<lparr>config = PInt 7\<rparr> store0 (PRef 2)
   \<and> contents_of (analyze (fst (DataAnalyzer_init rat_ops store0 (Some (PRef 0))))
                    (snd (DataAnalyzer_init rat_ops store0 (Some (PRef 0)))) (PRef 2)) =
     contents_of (analyze (fst (DataAnalyzer_init rat_ops store0 None))
                    (snd (DataAnalyzer_init rat_ops store0 None)) (PRef 2))
   \<and> contents_of (analyze (fst (DataAnalyzer_init rat_ops store0 None))
                    (snd (DataAnalyzer_init rat_ops store0 None)) (PRef 2)) =
     Inr (Some (ODict (dict_of [(''analyzed'', PBool True), (''data_count'', PInt 4)])))"
proof -
  have a: "allocated store0 (PRef 2)"
    by (simp add: store0_def)
  have b: "py_len (snd (DataAnalyzer_init rat_ops store0 None)) (PRef 2) = Inr 4"
    by (simp add: DataAnalyzer_init_def new_dict_def alloc_def store0_def)
  show ?thesis
    using a b
      analyze_ignores_config [of "\<lparr>config = PRef 0\<rparr>" store0 "PRef 2" "\<lparr>config = PInt 7\<rparr>"
        rat_ops "Some (PRef 0)" None]
    by (simp add: contents_of_analyze)
qed

text \<open>
  Claim C10. Let \<open>cfg\<close> be the configuration the constructor receives (\<^verbatim>\<open>None\<close> when
  there is no argument). When \<open>cfg\<close> is truthy the instance holds \<open>cfg\<close> itself and the
  store is unchanged. When \<open>cfg\<close> is falsy the instance holds a reference to a new object,
  at an address that was free before, whose contents are the empty dict; the reference is
  not \<open>cfg\<close>, and the objects that existed are untouched. \<^verbatim>\<open>None\<close>, \<^verbatim>\<open>0\<close>, the empty string
  and an empty dict are falsy.
\<close>

theorem DataAnalyzer_init_config:
  fixes ops :: "'f float_ops" and h :: "'f heap"
  assumes "cfg = (case arg of None \<Rightarrow> PNone | Some c \<Rightarrow> c)"
  shows "(py_truthy ops h cfg \<longrightarrow> DataAnalyzer_init ops h arg = (\<lparr>config = cfg\<rparr>, h))
         \<and> (\<not> py_truthy ops h cfg \<longrightarrow>
              (\<exists>self h'. DataAnalyzer_init ops h arg = (self, h')
                 \<and> config self = PRef (next_addr h)
                 \<and> objs h' (next_addr h) = ODict fmempty
                 \<and> \<not> allocated h (config self) \<and> allocated h' (config self)
                 \<and> (allocated h cfg \<longrightarrow> config self \<noteq> cfg)
                 \<and> (\<forall>b. b < next_addr h \<longrightarrow> objs h' b = objs h b)))
         \<and> \<not> py_truthy ops h PNone \<and> \<not> py_truthy ops h (PInt 0) \<and> \<not> py_truthy ops h (PStr '''')
         \<and> (objs h a = ODict fmempty \<longrightarrow> \<not> py_truthy ops h (PRef a))"
proof -
  have t: "DataAnalyzer_init ops h arg = (\<lparr>config = cfg\<rparr>, h)" if "py_truthy ops h cfg"
    using that DataAnalyzer_init_truthy [of ops h arg] by (simp add: assms)
  have f: "\<exists>self h'. DataAnalyzer_init ops h arg = (self, h')
                 \<and> config self = PRef (next_addr h)
                 \<and> objs h' (next_addr h) = ODict fmempty
                 \<and> \<not> allocated h (config self) \<and> allocated h' (config self)
                 \<and> (allocated h cfg \<longrightarrow> config self \<noteq> cfg)
                 \<and> (\<forall>b. b < next_addr h \<longrightarrow> objs h' b = objs h b)"
    if "\<not> py_truthy ops h cfg"
  proof -
    from that have "\<not> py_truthy ops h (case arg of None \<Rightarrow> PNone | Some c \<Rightarrow> c)"
      by (simp add: assms)
    note i = DataAnalyzer_init_falsy [OF this]
    show ?thesis
      unfolding i by (cases cfg) auto
  qed
  from t f show ?thesis by simp
qed

theorem DataAnalyzer_init_config_witness:
  "\<not> py_truthy rat_ops store0 (PRef 4) \<and> allocated store0 (PRef 4)
   \<and> DataAnalyzer_init rat_ops store0 (Some (PRef 4)) =
       (\<lparr>config = PRef 5\<rparr>, store0\<lparr>objs := (objs store0)(5 := ODict fmempty), next_addr := 6\<rparr>)
   \<and> py_truthy rat_ops store0 (PRef 0)
   \<and> DataAnalyzer_init rat_ops store0 (Some (PRef 0)) = (\<lparr>config = PRef 0\<rparr>, store0)"
proof -
  have a: "\<not> py_truthy rat_ops store0 (PRef 4)" "allocated store0 (PRef 4)"
    by (simp_all add: store0_def)
  have b: "py_truthy rat_ops store0 (PRef 0)"
    by (simp add: store0_def dict_of_single)
  have c: "DataAnalyzer_init rat_ops store0 (Some (PRef 4)) =
       (\<lparr>config = PRef 5\<rparr>, store0\<lparr>objs := (objs store0)(5 := ODict fmempty), next_addr := 6\<rparr>)"
    using a by (simp add: DataAnalyzer_init_def new_dict_def alloc_def dict_of_Nil store0_def)
  show ?thesis
    using a b c
      DataAnalyzer_init_config [of "PRef 0" "Some (PRef 0)" rat_ops store0 4]
      DataAnalyzer_init_config [of "PRef 4" "Some (PRef 4)" rat_ops store0 4]
    by simp
qed

end
